theory Spec2Isabelle
  imports Complex_Main "HOL-Library.Word"
begin

section \<open>The brick game of M8/Source/MainCode.cpp\<close>

text \<open>
  The game keeps three kinds of objects: one paddle, a grid of bricks and a vector of
  circles. Every coordinate, size, speed and colour component is a C++ \<^verbatim>\<open>float\<close>; the
  model takes them as real numbers, so arithmetic is exact and there is neither rounding
  nor NaN. The brick's \<^verbatim>\<open>int hitPoints\<close> is a 32-bit word read as a signed number.
  Member functions that mutate \<^verbatim>\<open>this\<close> or an argument return the updated objects.
\<close>

subsection \<open>Data\<close>

datatype BRICKTYPE = REFLECTIVE | DESTRUCTABLE

datatype ONOFF = ON | OFF

record Paddle =
  x :: real
  y :: real
  width :: real
  height :: real
  red :: real
  green :: real
  blue :: real

record Brick =
  red :: real
  green :: real
  blue :: real
  x :: real
  y :: real
  width :: real
  height :: real
  brick_type :: BRICKTYPE
  onoff :: ONOFF
  hitPoints :: "32 word"

record Circle =
  red :: real
  green :: real
  blue :: real
  radius :: real
  x :: real
  y :: real
  speedX :: real
  speedY :: real
  active :: bool

text \<open>The three constructors; a new brick is \<open>ON\<close>, a new circle is active.\<close>

definition new_Paddle :: "real \<Rightarrow> real \<Rightarrow> real \<Rightarrow> real \<Rightarrow> real \<Rightarrow> real \<Rightarrow> real \<Rightarrow> Paddle" where
  "new_Paddle xx yy ww hh rr gg bb =
     \<lparr>Paddle.x = xx, Paddle.y = yy, Paddle.width = ww, Paddle.height = hh,
      Paddle.red = rr, Paddle.green = gg, Paddle.blue = bb\<rparr>"

definition new_Brick ::
  "BRICKTYPE \<Rightarrow> real \<Rightarrow> real \<Rightarrow> real \<Rightarrow> real \<Rightarrow> real \<Rightarrow> real \<Rightarrow> real \<Rightarrow> 32 word \<Rightarrow> Brick" where
  "new_Brick bt xx yy ww hh rr gg bb hp =
     \<lparr>Brick.red = rr, Brick.green = gg, Brick.blue = bb,
      Brick.x = xx, Brick.y = yy, Brick.width = ww, Brick.height = hh,
      brick_type = bt, onoff = ON, hitPoints = hp\<rparr>"

definition new_Circle ::
  "real \<Rightarrow> real \<Rightarrow> real \<Rightarrow> real \<Rightarrow> real \<Rightarrow> real \<Rightarrow> real \<Rightarrow> real \<Rightarrow> Circle" where
  "new_Circle xx yy rad sX sY r g b =
     \<lparr>Circle.red = r, Circle.green = g, Circle.blue = b, radius = rad,
      Circle.x = xx, Circle.y = yy, speedX = sX, speedY = sY, active = True\<rparr>"

subsection \<open>Paddle\<close>

text \<open>\<^verbatim>\<open>Paddle::move\<close>: shift, then the two clamps one after the other.\<close>

definition move :: "Paddle \<Rightarrow> real \<Rightarrow> Paddle" where
  "move p dx =
     (let p1 = p\<lparr>Paddle.x := Paddle.x p + dx\<rparr>;
          p2 = (if Paddle.x p1 - Paddle.width p1 / 2 < - 1
                then p1\<lparr>Paddle.x := - 1 + Paddle.width p1 / 2\<rparr> else p1);
          p3 = (if Paddle.x p2 + Paddle.width p2 / 2 > 1
                then p2\<lparr>Paddle.x := 1 - Paddle.width p2 / 2\<rparr> else p2)
      in p3)"

text \<open>A run of calls \<^verbatim>\<open>paddle.move(d)\<close>, one for each element of the list, in order.\<close>

fun moves :: "Paddle \<Rightarrow> real list \<Rightarrow> Paddle" where
  "moves p [] = p"
| "moves p (d # ds) = moves (move p d) ds"

subsection \<open>Brick\<close>

text \<open>\<^verbatim>\<open>Brick::updateColor\<close>: the \<^verbatim>\<open>switch\<close> on the hit points of a destructible brick.\<close>

definition updateColor :: "Brick \<Rightarrow> Brick" where
  "updateColor b =
     (if brick_type b = DESTRUCTABLE then
        (if hitPoints b = 2 then b\<lparr>Brick.red := 1, Brick.green := 1 / 2, Brick.blue := 0\<rparr>
         else if hitPoints b = 1 then b\<lparr>Brick.red := 1, Brick.green := 0, Brick.blue := 0\<rparr>
         else b)
      else b)"

subsection \<open>Circle\<close>

text \<open>The bounding-box test of \<^verbatim>\<open>CheckCollision(Brick*)\<close>, the inner \<^verbatim>\<open>if\<close>.\<close>

definition hits_brick :: "Circle \<Rightarrow> Brick \<Rightarrow> bool" where
  "hits_brick c brk \<longleftrightarrow>
     Circle.x c + radius c > Brick.x brk - Brick.width brk / 2 \<and>
     Circle.x c - radius c < Brick.x brk + Brick.width brk / 2 \<and>
     Circle.y c + radius c > Brick.y brk - Brick.height brk / 2 \<and>
     Circle.y c - radius c < Brick.y brk + Brick.height brk / 2"

text \<open>
  \<^verbatim>\<open>Circle::CheckCollision(Brick* brk)\<close> changes the circle and the brick it points to;
  the model returns both. The decrement of \<open>hitPoints\<close> is the word subtraction, and
  \<^verbatim>\<open>hitPoints <= 0\<close> compares the signed value.
\<close>

definition CheckCollision_Brick :: "Circle \<Rightarrow> Brick \<Rightarrow> Circle \<times> Brick" where
  "CheckCollision_Brick c brk =
     (if onoff brk = ON then
        (if hits_brick c brk then
           (if brick_type brk = REFLECTIVE then (c\<lparr>speedY := - speedY c\<rparr>, brk)
            else if brick_type brk = DESTRUCTABLE then
              (let b1 = brk\<lparr>hitPoints := hitPoints brk - 1\<rparr>;
                   b2 = updateColor b1;
                   b3 = (if sint (hitPoints b2) \<le> 0 then b2\<lparr>onoff := OFF\<rparr> else b2)
               in (c\<lparr>speedY := - speedY c\<rparr>, b3))
            else (c, brk))
         else (c, brk))
      else (c, brk))"

text \<open>
  One brick over time: the calls \<^verbatim>\<open>c.CheckCollision(&brk)\<close> that the main loop makes
  on the same brick, for the circles of the list in order; only the brick is followed.
\<close>

fun hit_sequence :: "Brick \<Rightarrow> Circle list \<Rightarrow> Brick" where
  "hit_sequence brk [] = brk"
| "hit_sequence brk (c # cs) = hit_sequence (snd (CheckCollision_Brick c brk)) cs"

text \<open>The bounding-box test of \<^verbatim>\<open>CheckCollision(Paddle*)\<close>.\<close>

definition hits_paddle :: "Circle \<Rightarrow> Paddle \<Rightarrow> bool" where
  "hits_paddle c p \<longleftrightarrow>
     Circle.x c + radius c > Paddle.x p - Paddle.width p / 2 \<and>
     Circle.x c - radius c < Paddle.x p + Paddle.width p / 2 \<and>
     Circle.y c - radius c < Paddle.y p + Paddle.height p / 2 \<and>
     Circle.y c + radius c > Paddle.y p - Paddle.height p / 2"

text \<open>
  \<^verbatim>\<open>Circle::CheckCollision(Paddle* paddle)\<close>; \<^verbatim>\<open>fabs\<close> is the absolute value and the
  constant \<^verbatim>\<open>0.02f\<close> is \<open>2 / 100\<close>. The paddle is only read. For a paddle of width 0
  the quotient \<open>hitPos\<close> is 0 here, where the float division gives an infinity or NaN;
  it enters \<open>speedX\<close> only.
\<close>

definition CheckCollision_Paddle :: "Circle \<Rightarrow> Paddle \<Rightarrow> Circle" where
  "CheckCollision_Paddle c p =
     (if hits_paddle c p then
        (let c1 = c\<lparr>speedY := \<bar>speedY c\<bar>\<rparr>;
             hitPos = (Circle.x c1 - Paddle.x p) / (Paddle.width p / 2);
             c2 = c1\<lparr>speedX := hitPos * (2 / 100)\<rparr>;
             c3 = c2\<lparr>Circle.y := Paddle.y p + Paddle.height p / 2 + radius c2\<rparr>
         in c3)
      else c)"

text \<open>\<^verbatim>\<open>Circle::CheckWallCollision\<close>: four tests in sequence, each on the state the
  previous one left.\<close>

definition CheckWallCollision :: "Circle \<Rightarrow> Circle" where
  "CheckWallCollision c =
     (let c1 = (if Circle.x c - radius c < - 1
                then c\<lparr>Circle.x := - 1 + radius c, speedX := - speedX c\<rparr> else c);
          c2 = (if Circle.x c1 + radius c1 > 1
                then c1\<lparr>Circle.x := 1 - radius c1, speedX := - speedX c1\<rparr> else c1);
          c3 = (if Circle.y c2 + radius c2 > 1
                then c2\<lparr>Circle.y := 1 - radius c2, speedY := - speedY c2\<rparr> else c2);
          c4 = (if Circle.y c3 - radius c3 < - 1 then c3\<lparr>active := False\<rparr> else c3)
      in c4)"

text \<open>\<^verbatim>\<open>Circle::MoveOneStep\<close>.\<close>

definition MoveOneStep :: "Circle \<Rightarrow> Circle" where
  "MoveOneStep c = c\<lparr>Circle.x := Circle.x c + speedX c, Circle.y := Circle.y c + speedY c\<rparr>"

text \<open>
  \<^verbatim>\<open>Circle::CheckCollision(std::vector<Circle>& circles)\<close>. The circle \<^verbatim>\<open>this\<close> is an
  element of the vector it scans (the caller passes \<^verbatim>\<open>world\<close> for a circle of
  \<^verbatim>\<open>world\<close>), so the model names it by its index \<open>i\<close>, and \<^verbatim>\<open>&other != this\<close> is
  \<open>j \<noteq> i\<close>; \<open>i\<close> is below the length of the vector. \<open>too_close\<close> is the distance test
  and \<open>merged\<close> the circle built on a hit, both written inline in the source.
  The scan visits the indices in order and stops at the first hit (\<^verbatim>\<open>break\<close>), where it
  switches both circles off and appends the new one.
\<close>

definition too_close :: "Circle \<Rightarrow> Circle \<Rightarrow> bool" where
  "too_close c other \<longleftrightarrow>
     (let dx = Circle.x c - Circle.x other;
          dy = Circle.y c - Circle.y other;
          distance = sqrt (dx * dx + dy * dy)
      in distance < radius c + radius other)"

definition merged :: "Circle \<Rightarrow> Circle \<Rightarrow> Circle" where
  "merged c other =
     new_Circle ((Circle.x c + Circle.x other) / 2) ((Circle.y c + Circle.y other) / 2)
       (radius c + radius other) ((speedX c + speedX other) / 2)
       ((speedY c + speedY other) / 2) 1 1 0"

fun scan_others :: "nat \<Rightarrow> nat list \<Rightarrow> Circle list \<Rightarrow> Circle list" where
  "scan_others i [] circles = circles"
| "scan_others i (j # js) circles =
     (if j \<noteq> i \<and> active (circles ! j) \<and> too_close (circles ! i) (circles ! j)
      then circles[i := (circles ! i)\<lparr>active := False\<rparr>,
                   j := (circles ! j)\<lparr>active := False\<rparr>]
           @ [merged (circles ! i) (circles ! j)]
      else scan_others i js circles)"

definition CheckCollision_Circles :: "nat \<Rightarrow> Circle list \<Rightarrow> Circle list" where
  "CheckCollision_Circles i circles = scan_others i [0..<length circles] circles"

subsection \<open>The game state and one circle's turn in the main loop\<close>

text \<open>The globals \<^verbatim>\<open>world\<close>, \<^verbatim>\<open>bricks\<close> and \<^verbatim>\<open>paddle\<close>.\<close>

record Game =
  world :: "Circle list"
  bricks :: "Brick list"
  paddle :: Paddle

text \<open>The inner loop \<^verbatim>\<open>for (auto& brick : bricks) circle.CheckCollision(&brick)\<close>.\<close>

fun brick_pass :: "Circle \<Rightarrow> Brick list \<Rightarrow> Circle \<times> Brick list" where
  "brick_pass c [] = (c, [])"
| "brick_pass c (brk # brks) =
     (let (c1, brk1) = CheckCollision_Brick c brk;
          (c2, brks1) = brick_pass c1 brks
      in (c2, brk1 # brks1))"

text \<open>
  The body of the main loop's \<^verbatim>\<open>for (auto& circle : world)\<close> for the circle at index
  \<open>i\<close> of \<open>world\<close>: the test of \<open>active\<close> comes first and guards the five steps.
\<close>

definition circle_turn :: "nat \<Rightarrow> Game \<Rightarrow> Game" where
  "circle_turn i g =
     (if i < length (world g) \<and> active (world g ! i) then
        (let c1 = MoveOneStep (world g ! i);
             c2 = CheckWallCollision c1;
             c3 = CheckCollision_Paddle c2 (paddle g);
             (c4, brks) = brick_pass c3 (bricks g);
             w = CheckCollision_Circles i ((world g)[i := c4])
         in g\<lparr>world := w, bricks := brks\<rparr>)
      else g)"

text \<open>
  The pass of the main loop, \<^verbatim>\<open>for (auto& circle : world) { ... }\<close>. The range-for
  takes \<^verbatim>\<open>world.begin()\<close> and \<^verbatim>\<open>world.end()\<close> once, when it starts, so it is bound
  for the entries present at that moment, in index order. \<^verbatim>\<open>world\<close> is a
  \<^verbatim>\<open>std::vector\<close>: the \<^verbatim>\<open>push_back\<close> of a merge into a vector whose size equals its
  capacity moves the storage, and the two iterators of the loop and its reference
  \<^verbatim>\<open>circle\<close> are then invalid; the loop goes on to increment, compare and dereference
  them, which is undefined behaviour. The model carries the capacity \<open>cap\<close> that
  \<^verbatim>\<open>world\<close> has when the pass starts (\<open>length (world g) \<le> cap\<close>) and ends the pass with
  the failure \<open>IteratorInvalidated\<close> as soon as a turn has made the vector longer than
  \<open>cap\<close>. While the storage stays in place, the loop stops at the position it took as the
  end, so a circle appended during the pass gets no turn in it.
\<close>

datatype failure = IteratorInvalidated

fun pass_from :: "nat \<Rightarrow> nat list \<Rightarrow> Game \<Rightarrow> failure + Game" where
  "pass_from cap [] g = Inr g"
| "pass_from cap (i # js) g =
     (let g1 = circle_turn i g
      in if cap < length (world g1) then Inl IteratorInvalidated
         else pass_from cap js g1)"

definition world_pass :: "nat \<Rightarrow> Game \<Rightarrow> failure + Game" where
  "world_pass cap g = pass_from cap [0..<length (world g)] g"

text \<open>
  The compaction \<^verbatim>\<open>world.erase(remove_if(world.begin(), world.end(), pred), world.end())\<close>
  with \<^verbatim>\<open>pred = [](Circle& c) { return !c.active; }\<close>: \<^verbatim>\<open>remove_if\<close> keeps, in their
  order, the elements on which the predicate is false, and \<^verbatim>\<open>erase\<close> cuts the rest off.
\<close>

definition erase_remove_if :: "('a \<Rightarrow> bool) \<Rightarrow> 'a list \<Rightarrow> 'a list" where
  "erase_remove_if pred xs = filter (\<lambda>c. \<not> pred c) xs"

definition remove_inactive :: "Game \<Rightarrow> Game" where
  "remove_inactive g = g\<lparr>world := erase_remove_if (\<lambda>c. \<not> active c) (world g)\<rparr>"

section \<open>Properties\<close>

subsection \<open>Paddle\<close>

lemma move_fields:
  "Paddle.y (move p dx) = Paddle.y p" "Paddle.width (move p dx) = Paddle.width p"
  "Paddle.height (move p dx) = Paddle.height p"
  by (simp_all add: move_def Let_def)

lemma move_clamped:
  assumes "Paddle.width p \<le> 2"
  shows "- 1 + Paddle.width p / 2 \<le> Paddle.x (move p dx)"
    and "Paddle.x (move p dx) \<le> 1 - Paddle.width p / 2"
  using assms by (auto simp add: move_def Let_def)

lemma moves_fields:
  "Paddle.y (moves p ds) = Paddle.y p \<and> Paddle.width (moves p ds) = Paddle.width p"
  by (induction ds arbitrary: p) (simp_all add: move_fields)

lemma moves_snoc: "moves p (ds @ [d]) = move (moves p ds) d"
  by (induction ds arbitrary: p) simp_all

text \<open>
  C6. Under \<open>width \<le> 2\<close>, after any non-empty run of \<open>move\<close> calls, whatever the
  steps, the paddle's centre is within \<open>[-1 + width/2, 1 - width/2]\<close>, and its
  vertical position is the one it started with. Every prefix of a run is itself a run,
  so the bounds hold after every call.
\<close>

theorem paddle_moves_clamped:
  assumes "Paddle.width p \<le> 2" and "ds \<noteq> []"
  shows "- 1 + Paddle.width p / 2 \<le> Paddle.x (moves p ds)
       \<and> Paddle.x (moves p ds) \<le> 1 - Paddle.width p / 2
       \<and> Paddle.y (moves p ds) = Paddle.y p"
proof -
  from \<open>ds \<noteq> []\<close> obtain es d where ds: "ds = es @ [d]"
    by (metis rev_exhaust)
  let ?q = "moves p es"
  have w: "Paddle.width ?q = Paddle.width p"
    by (simp add: moves_fields)
  with assms(1) have "Paddle.width ?q \<le> 2"
    by simp
  from move_clamped [OF this, of d] w
  have "- 1 + Paddle.width p / 2 \<le> Paddle.x (move ?q d)"
    and "Paddle.x (move ?q d) \<le> 1 - Paddle.width p / 2"
    by simp_all
  then show ?thesis
    by (simp add: ds moves_snoc moves_fields move_fields)
qed

theorem paddle_moves_clamped_witness:
  "Paddle.width (new_Paddle 0 (- 9 / 10) (2 / 5) (1 / 20) (1 / 2) (1 / 2) 1) \<le> 2
   \<and> [100, - 7, 1 / 20] \<noteq> ([] :: real list)
   \<and> Paddle.x (moves (new_Paddle 0 (- 9 / 10) (2 / 5) (1 / 20) (1 / 2) (1 / 2) 1)
        [100, - 7, 1 / 20]) = - 3 / 4
   \<and> Paddle.y (moves (new_Paddle 0 (- 9 / 10) (2 / 5) (1 / 20) (1 / 2) (1 / 2) 1)
        [100, - 7, 1 / 20]) = - 9 / 10"
  using paddle_moves_clamped
    [of "new_Paddle 0 (- 9 / 10) (2 / 5) (1 / 20) (1 / 2) (1 / 2) 1" "[100, - 7, 1 / 20]"]
  by (simp add: new_Paddle_def move_def Let_def)

subsection \<open>Bricks\<close>

lemma sint_dec:
  fixes w :: "32 word"
  assumes "1 \<le> sint w"
  shows "sint (w - 1) = sint w - 1"
proof -
  have "sint w < 2 ^ 31"
    using sint_lt [of w] by simp
  with assms show ?thesis
    by (simp add: sint_word_diff signed_take_bit_int_eq_self)
qed

lemma CheckCollision_Brick_reflective:
  assumes "brick_type brk = REFLECTIVE"
  shows "snd (CheckCollision_Brick c brk) = brk"
    and "onoff brk = ON \<Longrightarrow> hits_brick c brk \<Longrightarrow>
         CheckCollision_Brick c brk = (c\<lparr>speedY := - speedY c\<rparr>, brk)"
  using assms by (simp_all add: CheckCollision_Brick_def)

lemma hit_sequence_reflective:
  "brick_type brk = REFLECTIVE \<Longrightarrow> hit_sequence brk cs = brk"
  by (induction cs) (simp_all add: CheckCollision_Brick_reflective)

lemma CheckCollision_Brick_destructible:
  assumes "brick_type brk = DESTRUCTABLE" and "onoff brk = ON" and "hits_brick c brk"
  shows "CheckCollision_Brick c brk =
          (c\<lparr>speedY := - speedY c\<rparr>,
           (updateColor (brk\<lparr>hitPoints := hitPoints brk - 1\<rparr>))
             \<lparr>onoff := (if sint (hitPoints brk - 1) \<le> 0 then OFF else ON)\<rparr>)"
  using assms by (simp add: CheckCollision_Brick_def Let_def updateColor_def)

lemma hits_brick_cong:
  "Brick.x b' = Brick.x b \<Longrightarrow> Brick.y b' = Brick.y b \<Longrightarrow> Brick.width b' = Brick.width b
   \<Longrightarrow> Brick.height b' = Brick.height b \<Longrightarrow> hits_brick c b' = hits_brick c b"
  by (simp add: hits_brick_def)

lemma CheckCollision_Brick_geometry:
  "Brick.x (snd (CheckCollision_Brick c brk)) = Brick.x brk"
  "Brick.y (snd (CheckCollision_Brick c brk)) = Brick.y brk"
  "Brick.width (snd (CheckCollision_Brick c brk)) = Brick.width brk"
  "Brick.height (snd (CheckCollision_Brick c brk)) = Brick.height brk"
  "brick_type (snd (CheckCollision_Brick c brk)) = brick_type brk"
  by (simp_all add: CheckCollision_Brick_def Let_def updateColor_def)

lemma hit_sequence_destructible:
  assumes "brick_type brk = DESTRUCTABLE" and "onoff brk = ON"
    and "1 \<le> sint (hitPoints brk)"
    and "\<forall>c \<in> set cs. hits_brick c brk"
    and "int (length cs) \<le> sint (hitPoints brk)"
  shows "sint (hitPoints (hit_sequence brk cs)) = sint (hitPoints brk) - int (length cs)
       \<and> onoff (hit_sequence brk cs)
           = (if int (length cs) = sint (hitPoints brk) then OFF else ON)"
  using assms
proof (induction cs arbitrary: brk)
  case Nil
  then show ?case by simp
next
  case (Cons c cs)
  let ?b = "snd (CheckCollision_Brick c brk)"
  from Cons.prems have hit: "hits_brick c brk"
    by simp
  have step: "?b = (updateColor (brk\<lparr>hitPoints := hitPoints brk - 1\<rparr>))
             \<lparr>onoff := (if sint (hitPoints brk - 1) \<le> 0 then OFF else ON)\<rparr>"
    using CheckCollision_Brick_destructible [OF Cons.prems(1,2) hit] by simp
  have hp: "sint (hitPoints ?b) = sint (hitPoints brk) - 1"
    using sint_dec [OF Cons.prems(3)] by (simp add: step updateColor_def)
  have oo: "onoff ?b = (if sint (hitPoints brk) = 1 then OFF else ON)"
    using sint_dec [OF Cons.prems(3)] Cons.prems(3) by (simp add: step)
  show ?case
  proof (cases cs)
    case Nil
    then show ?thesis
      using hp oo by simp
  next
    case (Cons d ds)
    with Cons.prems(5) have big: "2 \<le> sint (hitPoints brk)"
      by simp
    have "sint (hitPoints (hit_sequence ?b cs)) = sint (hitPoints ?b) - int (length cs)
       \<and> onoff (hit_sequence ?b cs)
           = (if int (length cs) = sint (hitPoints ?b) then OFF else ON)"
    proof (rule Cons.IH)
      show "brick_type ?b = DESTRUCTABLE"
        using Cons.prems(1) by (simp add: CheckCollision_Brick_geometry)
      show "onoff ?b = ON"
        using oo big by simp
      show "1 \<le> sint (hitPoints ?b)"
        using hp big by simp
      show "\<forall>c\<in>set cs. hits_brick c ?b"
        using Cons.prems(4)
        by (simp add: hits_brick_cong [OF CheckCollision_Brick_geometry(1-4)])
      show "int (length cs) \<le> sint (hitPoints ?b)"
        using Cons.prems(5) hp by simp
    qed
    then show ?thesis
      using hp by auto
  qed
qed

text \<open>
  C4. A destructible brick that is \<open>ON\<close> with \<open>N \<ge> 1\<close> hit points, hit by circles
  that overlap it: after \<open>k \<le> N\<close> hits its hit points are \<open>N - k\<close>, so they reach 0
  after exactly \<open>N\<close> hits, and the brick is \<open>OFF\<close> after the \<open>N\<close>-th hit and \<open>ON\<close>
  after every earlier one. One hit takes one hit point and sets the colour to orange
  \<open>(1, 1/2, 0)\<close> when 2 remain, to red \<open>(1, 0, 0)\<close> when 1 remains, and leaves it
  otherwise.
\<close>

theorem destructible_brick_hits:
  assumes "brick_type brk = DESTRUCTABLE" and "onoff brk = ON"
    and "1 \<le> sint (hitPoints brk)"
    and "\<forall>d \<in> set cs. hits_brick d brk"
    and "int (length cs) \<le> sint (hitPoints brk)"
    and "hits_brick c brk"
  shows "sint (hitPoints (hit_sequence brk cs)) = sint (hitPoints brk) - int (length cs)
       \<and> onoff (hit_sequence brk cs)
           = (if int (length cs) = sint (hitPoints brk) then OFF else ON)
       \<and> hitPoints (snd (CheckCollision_Brick c brk)) = hitPoints brk - 1
       \<and> (Brick.red (snd (CheckCollision_Brick c brk)),
          Brick.green (snd (CheckCollision_Brick c brk)),
          Brick.blue (snd (CheckCollision_Brick c brk)))
           = (if hitPoints brk - 1 = 2 then (1, 1 / 2, 0)
              else if hitPoints brk - 1 = 1 then (1, 0, 0)
              else (Brick.red brk, Brick.green brk, Brick.blue brk))"
proof -
  note seq = hit_sequence_destructible [OF assms(1-5)]
  have one: "snd (CheckCollision_Brick c brk) =
      (updateColor (brk\<lparr>hitPoints := hitPoints brk - 1\<rparr>))
        \<lparr>onoff := (if sint (hitPoints brk - 1) \<le> 0 then OFF else ON)\<rparr>"
    using CheckCollision_Brick_destructible [OF assms(1,2,6)] by simp
  have "hitPoints (snd (CheckCollision_Brick c brk)) = hitPoints brk - 1"
    by (simp add: one updateColor_def)
  moreover have "(Brick.red (snd (CheckCollision_Brick c brk)),
          Brick.green (snd (CheckCollision_Brick c brk)),
          Brick.blue (snd (CheckCollision_Brick c brk)))
           = (if hitPoints brk - 1 = 2 then (1, 1 / 2, 0)
              else if hitPoints brk - 1 = 1 then (1, 0, 0)
              else (Brick.red brk, Brick.green brk, Brick.blue brk))"
    using assms(1) by (simp add: one updateColor_def)
  ultimately show ?thesis
    using seq by simp
qed

theorem destructible_brick_hits_witness:
  "brick_type (new_Brick DESTRUCTABLE (- 4 / 5) (3 / 5) (1 / 5) (1 / 10) 0 1 0 3) = DESTRUCTABLE
   \<and> onoff (new_Brick DESTRUCTABLE (- 4 / 5) (3 / 5) (1 / 5) (1 / 10) 0 1 0 3) = ON
   \<and> hits_brick (new_Circle (- 4 / 5) (3 / 5) (3 / 100) 0 (1 / 50) 1 1 1)
       (new_Brick DESTRUCTABLE (- 4 / 5) (3 / 5) (1 / 5) (1 / 10) 0 1 0 3)
   \<and> sint (hitPoints (hit_sequence
       (new_Brick DESTRUCTABLE (- 4 / 5) (3 / 5) (1 / 5) (1 / 10) 0 1 0 3)
       [new_Circle (- 4 / 5) (3 / 5) (3 / 100) 0 (1 / 50) 1 1 1,
        new_Circle (- 4 / 5) (3 / 5) (3 / 100) 0 (1 / 50) 1 1 1,
        new_Circle (- 4 / 5) (3 / 5) (3 / 100) 0 (1 / 50) 1 1 1])) = 0
   \<and> onoff (hit_sequence
       (new_Brick DESTRUCTABLE (- 4 / 5) (3 / 5) (1 / 5) (1 / 10) 0 1 0 3)
       [new_Circle (- 4 / 5) (3 / 5) (3 / 100) 0 (1 / 50) 1 1 1,
        new_Circle (- 4 / 5) (3 / 5) (3 / 100) 0 (1 / 50) 1 1 1,
        new_Circle (- 4 / 5) (3 / 5) (3 / 100) 0 (1 / 50) 1 1 1]) = OFF
   \<and> hitPoints (snd (CheckCollision_Brick
       (new_Circle (- 4 / 5) (3 / 5) (3 / 100) 0 (1 / 50) 1 1 1)
       (new_Brick DESTRUCTABLE (- 4 / 5) (3 / 5) (1 / 5) (1 / 10) 0 1 0 3))) = 2
   \<and> Brick.green (snd (CheckCollision_Brick
       (new_Circle (- 4 / 5) (3 / 5) (3 / 100) 0 (1 / 50) 1 1 1)
       (new_Brick DESTRUCTABLE (- 4 / 5) (3 / 5) (1 / 5) (1 / 10) 0 1 0 3))) = 1 / 2"
  using destructible_brick_hits
    [of "new_Brick DESTRUCTABLE (- 4 / 5) (3 / 5) (1 / 5) (1 / 10) 0 1 0 3"
        "[new_Circle (- 4 / 5) (3 / 5) (3 / 100) 0 (1 / 50) 1 1 1,
          new_Circle (- 4 / 5) (3 / 5) (3 / 100) 0 (1 / 50) 1 1 1,
          new_Circle (- 4 / 5) (3 / 5) (3 / 100) 0 (1 / 50) 1 1 1]"
        "new_Circle (- 4 / 5) (3 / 5) (3 / 100) 0 (1 / 50) 1 1 1"]
  by (simp add: new_Brick_def new_Circle_def hits_brick_def)

text \<open>
  C8. A circle that overlaps a reflective brick that is \<open>ON\<close>: the call returns the
  brick as it was, field for field, and the circle with \<open>speedY\<close> negated and nothing
  else changed. So after any number of such collisions the brick is the same brick, and
  still \<open>ON\<close>.
\<close>

theorem reflective_brick_unchanged:
  assumes "brick_type brk = REFLECTIVE" and "onoff brk = ON"
    and "\<forall>c \<in> set cs. hits_brick c brk"
  shows "hit_sequence brk cs = brk
       \<and> onoff (hit_sequence brk cs) = ON
       \<and> (\<forall>c \<in> set cs. CheckCollision_Brick c brk = (c\<lparr>speedY := - speedY c\<rparr>, brk))"
  using assms by (simp add: hit_sequence_reflective CheckCollision_Brick_reflective)

theorem reflective_brick_unchanged_witness:
  "brick_type (new_Brick REFLECTIVE (- 29 / 50) (3 / 5) (1 / 5) (1 / 10) (1 / 2) (1 / 2) 0 3)
     = REFLECTIVE
   \<and> hits_brick (new_Circle (- 3 / 5) (11 / 20) (3 / 100) (1 / 100) (1 / 50) 1 1 1)
       (new_Brick REFLECTIVE (- 29 / 50) (3 / 5) (1 / 5) (1 / 10) (1 / 2) (1 / 2) 0 3)
   \<and> hit_sequence
       (new_Brick REFLECTIVE (- 29 / 50) (3 / 5) (1 / 5) (1 / 10) (1 / 2) (1 / 2) 0 3)
       [new_Circle (- 3 / 5) (11 / 20) (3 / 100) (1 / 100) (1 / 50) 1 1 1,
        new_Circle (- 3 / 5) (11 / 20) (3 / 100) (1 / 100) (1 / 50) 1 1 1]
     = new_Brick REFLECTIVE (- 29 / 50) (3 / 5) (1 / 5) (1 / 10) (1 / 2) (1 / 2) 0 3
   \<and> CheckCollision_Brick (new_Circle (- 3 / 5) (11 / 20) (3 / 100) (1 / 100) (1 / 50) 1 1 1)
       (new_Brick REFLECTIVE (- 29 / 50) (3 / 5) (1 / 5) (1 / 10) (1 / 2) (1 / 2) 0 3)
     = (new_Circle (- 3 / 5) (11 / 20) (3 / 100) (1 / 100) (- 1 / 50) 1 1 1,
        new_Brick REFLECTIVE (- 29 / 50) (3 / 5) (1 / 5) (1 / 10) (1 / 2) (1 / 2) 0 3)"
  using reflective_brick_unchanged
    [of "new_Brick REFLECTIVE (- 29 / 50) (3 / 5) (1 / 5) (1 / 10) (1 / 2) (1 / 2) 0 3"
        "[new_Circle (- 3 / 5) (11 / 20) (3 / 100) (1 / 100) (1 / 50) 1 1 1,
          new_Circle (- 3 / 5) (11 / 20) (3 / 100) (1 / 100) (1 / 50) 1 1 1]"]
  by (simp add: new_Brick_def new_Circle_def hits_brick_def)

subsection \<open>Circle against the paddle and the walls\<close>

lemma CheckCollision_Paddle_hit:
  "hits_paddle c p \<Longrightarrow> CheckCollision_Paddle c p =
     c\<lparr>speedY := \<bar>speedY c\<bar>,
       speedX := (Circle.x c - Paddle.x p) / (Paddle.width p / 2) * (2 / 100),
       Circle.y := Paddle.y p + Paddle.height p / 2 + radius c\<rparr>"
  by (simp add: CheckCollision_Paddle_def Let_def)

lemma CheckCollision_Paddle_miss:
  "\<not> hits_paddle c p \<Longrightarrow> CheckCollision_Paddle c p = c"
  by (simp add: CheckCollision_Paddle_def)

lemma not_hits_paddle_after: "\<not> hits_paddle (CheckCollision_Paddle c p) p"
proof (cases "hits_paddle c p")
  case True
  then show ?thesis
    by (simp add: CheckCollision_Paddle_hit) (simp add: hits_paddle_def)
next
  case False
  then show ?thesis
    by (simp add: CheckCollision_Paddle_miss)
qed

text \<open>What the paddle check does to the vertical speed on overlap: \<^verbatim>\<open>fabs\<close>.\<close>

lemma CheckCollision_Paddle_speedY:
  "hits_paddle c p \<Longrightarrow> speedY (CheckCollision_Paddle c p) = \<bar>speedY c\<bar>"
  by (simp add: CheckCollision_Paddle_hit)

text \<open>
  C2. After a paddle overlap the vertical speed should be strictly positive, whatever it
  was before; the source says so at the assignment: \<^verbatim>\<open>// Ensure circle moves upwards\<close>.
  The code does not do this for the speed 0. The circle below is what the merge of two
  launched balls of radius \<open>3/100\<close> with vertical speeds \<open>1/50\<close> and \<open>- 1/50\<close> gives; it
  overlaps the game's paddle, and after the paddle check its vertical speed is still 0,
  not positive: it is put on top of the paddle and never leaves that height.
\<close>

theorem paddle_speedY_zero_not_upward:
  "hits_paddle (new_Circle (1 / 10) (- 7 / 8) (3 / 50) 0 0 1 1 0)
     (new_Paddle 0 (- 9 / 10) (2 / 5) (1 / 20) (1 / 2) (1 / 2) 1)
   \<and> speedY (CheckCollision_Paddle (new_Circle (1 / 10) (- 7 / 8) (3 / 50) 0 0 1 1 0)
       (new_Paddle 0 (- 9 / 10) (2 / 5) (1 / 20) (1 / 2) (1 / 2) 1)) = 0
   \<and> \<not> 0 < speedY (CheckCollision_Paddle (new_Circle (1 / 10) (- 7 / 8) (3 / 50) 0 0 1 1 0)
       (new_Paddle 0 (- 9 / 10) (2 / 5) (1 / 20) (1 / 2) (1 / 2) 1))"
  by (simp add: new_Circle_def new_Paddle_def hits_paddle_def CheckCollision_Paddle_def)

text \<open>
  C10. The paddle check applied twice to a circle, with the same paddle, gives what one
  application gives. After the check the circle no longer overlaps the paddle: on overlap
  it is put at \<open>y = paddle.y + paddle.height / 2 + radius\<close>, where the strict test
  \<open>y - radius < paddle.y + paddle.height / 2\<close> is false. A circle that does not
  overlap is returned as it is.
\<close>

theorem paddle_check_twice:
  "CheckCollision_Paddle (CheckCollision_Paddle c p) p = CheckCollision_Paddle c p
   \<and> \<not> hits_paddle (CheckCollision_Paddle c p) p
   \<and> (hits_paddle c p \<longrightarrow>
        Circle.y (CheckCollision_Paddle c p) = Paddle.y p + Paddle.height p / 2 + radius c)
   \<and> (\<not> hits_paddle c p \<longrightarrow> CheckCollision_Paddle c p = c)"
  using not_hits_paddle_after [of c p]
  by (simp add: CheckCollision_Paddle_miss CheckCollision_Paddle_hit)

theorem paddle_check_twice_witness:
  "hits_paddle (new_Circle (1 / 10) (- 7 / 8) (3 / 100) (1 / 100) (- 1 / 50) 1 1 1)
     (new_Paddle 0 (- 9 / 10) (2 / 5) (1 / 20) (1 / 2) (1 / 2) 1)
   \<and> Circle.y (CheckCollision_Paddle
       (new_Circle (1 / 10) (- 7 / 8) (3 / 100) (1 / 100) (- 1 / 50) 1 1 1)
       (new_Paddle 0 (- 9 / 10) (2 / 5) (1 / 20) (1 / 2) (1 / 2) 1)) = - 169 / 200
   \<and> CheckCollision_Paddle (CheckCollision_Paddle
       (new_Circle (1 / 10) (- 7 / 8) (3 / 100) (1 / 100) (- 1 / 50) 1 1 1)
       (new_Paddle 0 (- 9 / 10) (2 / 5) (1 / 20) (1 / 2) (1 / 2) 1))
       (new_Paddle 0 (- 9 / 10) (2 / 5) (1 / 20) (1 / 2) (1 / 2) 1)
     = CheckCollision_Paddle
       (new_Circle (1 / 10) (- 7 / 8) (3 / 100) (1 / 100) (- 1 / 50) 1 1 1)
       (new_Paddle 0 (- 9 / 10) (2 / 5) (1 / 20) (1 / 2) (1 / 2) 1)
   \<and> \<not> hits_paddle (new_Circle (1 / 2) 0 (3 / 100) (1 / 100) (- 1 / 50) 1 1 1)
       (new_Paddle 0 (- 9 / 10) (2 / 5) (1 / 20) (1 / 2) (1 / 2) 1)
   \<and> CheckCollision_Paddle (new_Circle (1 / 2) 0 (3 / 100) (1 / 100) (- 1 / 50) 1 1 1)
       (new_Paddle 0 (- 9 / 10) (2 / 5) (1 / 20) (1 / 2) (1 / 2) 1)
     = new_Circle (1 / 2) 0 (3 / 100) (1 / 100) (- 1 / 50) 1 1 1"
  using paddle_check_twice
    [of "new_Circle (1 / 10) (- 7 / 8) (3 / 100) (1 / 100) (- 1 / 50) 1 1 1"
        "new_Paddle 0 (- 9 / 10) (2 / 5) (1 / 20) (1 / 2) (1 / 2) 1"]
    paddle_check_twice
    [of "new_Circle (1 / 2) 0 (3 / 100) (1 / 100) (- 1 / 50) 1 1 1"
        "new_Paddle 0 (- 9 / 10) (2 / 5) (1 / 20) (1 / 2) (1 / 2) 1"]
  by (simp add: new_Circle_def new_Paddle_def hits_paddle_def)

text \<open>
  C5. After the wall check, a circle whose lower edge is below \<open>- 1\<close> is inactive; so,
  for a radius that is not negative (the data model has \<open>radius > 0\<close>), a circle whose
  centre is below \<open>- 1 - radius\<close> is inactive, with the vertical speed and position it
  had before the check. The bottom wall only switches off: it is the only way the check
  changes \<open>active\<close>, and the vertical position and speed that the check returns are
  fixed by the top wall's test alone, so the bottom wall neither reflects nor clamps.
\<close>

theorem wall_bottom_deactivates:
  "(Circle.y (CheckWallCollision c) - radius (CheckWallCollision c) < - 1
      \<longrightarrow> \<not> active (CheckWallCollision c))
   \<and> (0 \<le> radius c \<longrightarrow>
        Circle.y (CheckWallCollision c) < - 1 - radius (CheckWallCollision c)
      \<longrightarrow> \<not> active (CheckWallCollision c)
          \<and> speedY (CheckWallCollision c) = speedY c
          \<and> Circle.y (CheckWallCollision c) = Circle.y c)
   \<and> (\<not> Circle.y (CheckWallCollision c) - radius (CheckWallCollision c) < - 1
      \<longrightarrow> active (CheckWallCollision c) = active c)
   \<and> Circle.y (CheckWallCollision c)
       = (if Circle.y c + radius c > 1 then 1 - radius c else Circle.y c)
   \<and> speedY (CheckWallCollision c)
       = (if Circle.y c + radius c > 1 then - speedY c else speedY c)
   \<and> radius (CheckWallCollision c) = radius c"
  by (simp add: CheckWallCollision_def Let_def)

theorem wall_bottom_deactivates_witness:
  "Circle.y (CheckWallCollision (new_Circle (1 / 2) (- 49 / 50) (3 / 100) 0 (- 1 / 50) 1 1 1))
     - radius (CheckWallCollision (new_Circle (1 / 2) (- 49 / 50) (3 / 100) 0 (- 1 / 50) 1 1 1))
     < - 1
   \<and> \<not> active (CheckWallCollision (new_Circle (1 / 2) (- 49 / 50) (3 / 100) 0 (- 1 / 50) 1 1 1))
   \<and> Circle.y (CheckWallCollision (new_Circle (1 / 2) (- 49 / 50) (3 / 100) 0 (- 1 / 50) 1 1 1))
       = - 49 / 50
   \<and> speedY (CheckWallCollision (new_Circle (1 / 2) (- 49 / 50) (3 / 100) 0 (- 1 / 50) 1 1 1))
       = - 1 / 50
   \<and> 0 \<le> radius (new_Circle (1 / 2) (- 17 / 16) (1 / 32) 0 (- 1 / 50) 1 1 1)
   \<and> Circle.y (CheckWallCollision (new_Circle (1 / 2) (- 17 / 16) (1 / 32) 0 (- 1 / 50) 1 1 1))
       < - 1 - radius (CheckWallCollision
           (new_Circle (1 / 2) (- 17 / 16) (1 / 32) 0 (- 1 / 50) 1 1 1))
   \<and> \<not> active (CheckWallCollision (new_Circle (1 / 2) (- 17 / 16) (1 / 32) 0 (- 1 / 50) 1 1 1))
   \<and> \<not> Circle.y (CheckWallCollision (new_Circle (1 / 2) (- 1 / 2) (3 / 100) 0 (- 1 / 50) 1 1 1))
       - radius (CheckWallCollision (new_Circle (1 / 2) (- 1 / 2) (3 / 100) 0 (- 1 / 50) 1 1 1))
       < - 1
   \<and> active (CheckWallCollision (new_Circle (1 / 2) (- 1 / 2) (3 / 100) 0 (- 1 / 50) 1 1 1))"
  using wall_bottom_deactivates
    [of "new_Circle (1 / 2) (- 49 / 50) (3 / 100) 0 (- 1 / 50) 1 1 1"]
    wall_bottom_deactivates
    [of "new_Circle (1 / 2) (- 17 / 16) (1 / 32) 0 (- 1 / 50) 1 1 1"]
    wall_bottom_deactivates
    [of "new_Circle (1 / 2) (- 1 / 2) (3 / 100) 0 (- 1 / 50) 1 1 1"]
  by (simp add: new_Circle_def)

subsection \<open>Circle against circle, and one circle's turn\<close>

lemma sqrt_less_iff_sq:
  fixes a s :: real
  assumes "0 \<le> a"
  shows "sqrt a < s \<longleftrightarrow> 0 < s \<and> a < s * s"
proof (cases "0 < s")
  case True
  then have "sqrt (s * s) = s"
    by simp
  then have "sqrt a < s \<longleftrightarrow> sqrt a < sqrt (s * s)"
    by simp
  also have "\<dots> \<longleftrightarrow> a < s * s"
    by (rule real_sqrt_less_iff)
  finally show ?thesis
    using True by simp
next
  case False
  have "0 \<le> sqrt a"
    using assms by simp
  with False show ?thesis
    by linarith
qed

text \<open>The distance test without the square root, for evaluation.\<close>

lemma too_close_iff:
  "too_close c d \<longleftrightarrow>
     0 < radius c + radius d \<and>
     (Circle.x c - Circle.x d) * (Circle.x c - Circle.x d)
       + (Circle.y c - Circle.y d) * (Circle.y c - Circle.y d)
       < (radius c + radius d) * (radius c + radius d)"
  by (simp add: too_close_def Let_def sqrt_less_iff_sq)





text \<open>
  C3. Within one tick a circle should not be both lost at the bottom wall and merged: once
  it is inactive, the later steps of its turn should leave it alone, as the main loop does
  for a circle that is inactive when its turn starts and as the merge scan does for an
  inactive partner. The code reads the flag of the circle whose turn it is only once,
  before the move. Here the first circle is active when its turn begins, the move takes
  its lower edge below \<open>- 1\<close> and the wall check switches it off; the merge check of the
  same turn still runs on it, switches the second circle off and appends their merged
  circle.
\<close>

theorem lost_and_merged_same_tick:
  "active (new_Circle (1 / 2) (- 15 / 16) (1 / 8) 0 (- 1 / 16) 1 0 0)
   \<and> \<not> active (CheckWallCollision (MoveOneStep
         (new_Circle (1 / 2) (- 15 / 16) (1 / 8) 0 (- 1 / 16) 1 0 0)))
   \<and> world (circle_turn 0
       \<lparr>world = [new_Circle (1 / 2) (- 15 / 16) (1 / 8) 0 (- 1 / 16) 1 0 0,
                 new_Circle (1 / 2) (- 7 / 8) (1 / 8) 0 0 0 1 0],
        bricks = [],
        paddle = new_Paddle 0 (- 9 / 10) (2 / 5) (1 / 20) (1 / 2) (1 / 2) 1\<rparr>)
     = [(new_Circle (1 / 2) (- 1) (1 / 8) 0 (- 1 / 16) 1 0 0)\<lparr>active := False\<rparr>,
        (new_Circle (1 / 2) (- 7 / 8) (1 / 8) 0 0 0 1 0)\<lparr>active := False\<rparr>,
        new_Circle (1 / 2) (- 15 / 16) (1 / 4) 0 (- 1 / 32) 1 1 0]"
  by (simp add: circle_turn_def CheckCollision_Circles_def upt_rec too_close_iff merged_def
      new_Circle_def new_Paddle_def MoveOneStep_def CheckWallCollision_def
      CheckCollision_Paddle_def hits_paddle_def Let_def)

text \<open>
  C9. The pass over \<open>world\<close> should survive the changes a merge makes to it while it
  runs. It does not when the merge finds the vector full. Two balls launched one after
  the other make \<open>world\<close> a vector of size 2 and, in the common implementations, of
  capacity 2. In the pass below the first ball moves onto the second and merges with it:
  the \<^verbatim>\<open>push_back\<close> of the merged circle needs a third place, the storage moves, and the
  loop, which still has the second entry to visit, is left with invalid iterators. With
  room for the third circle (capacity 4) the same pass ends, with both balls off and the
  merged circle appended.
\<close>

theorem world_pass_invalidated:
  "length (world
       \<lparr>world = [new_Circle 0 (- 83 / 100) (3 / 100) 0 (1 / 50) 1 0 0,
                 new_Circle 0 (- 17 / 20) (3 / 100) (1 / 100) (1 / 50) 0 1 0],
        bricks = [],
        paddle = new_Paddle 0 (- 9 / 10) (2 / 5) (1 / 20) (1 / 2) (1 / 2) 1\<rparr>) = 2
   \<and> world_pass 2
       \<lparr>world = [new_Circle 0 (- 83 / 100) (3 / 100) 0 (1 / 50) 1 0 0,
                 new_Circle 0 (- 17 / 20) (3 / 100) (1 / 100) (1 / 50) 0 1 0],
        bricks = [],
        paddle = new_Paddle 0 (- 9 / 10) (2 / 5) (1 / 20) (1 / 2) (1 / 2) 1\<rparr>
     = Inl IteratorInvalidated
   \<and> world_pass 4
       \<lparr>world = [new_Circle 0 (- 83 / 100) (3 / 100) 0 (1 / 50) 1 0 0,
                 new_Circle 0 (- 17 / 20) (3 / 100) (1 / 100) (1 / 50) 0 1 0],
        bricks = [],
        paddle = new_Paddle 0 (- 9 / 10) (2 / 5) (1 / 20) (1 / 2) (1 / 2) 1\<rparr>
     = Inr \<lparr>world = [(new_Circle 0 (- 81 / 100) (3 / 100) 0 (1 / 50) 1 0 0)\<lparr>active := False\<rparr>,
                 (new_Circle 0 (- 17 / 20) (3 / 100) (1 / 100) (1 / 50) 0 1 0)\<lparr>active := False\<rparr>,
                 new_Circle 0 (- 83 / 100) (3 / 50) (1 / 200) (1 / 50) 1 1 0],
        bricks = [],
        paddle = new_Paddle 0 (- 9 / 10) (2 / 5) (1 / 20) (1 / 2) (1 / 2) 1\<rparr>"
  by (simp add: world_pass_def circle_turn_def CheckCollision_Circles_def upt_rec too_close_iff
      merged_def new_Circle_def new_Paddle_def MoveOneStep_def CheckWallCollision_def
      CheckCollision_Paddle_def hits_paddle_def Let_def)

subsection \<open>Compaction\<close>

text \<open>
  C7. After the compaction, \<open>world\<close> holds exactly the circles that were in it and are
  active, in their order and as often as before: no inactive circle stays, no active
  circle goes. The bricks and the paddle are as they were.
\<close>

theorem compaction_keeps_active:
  "world (remove_inactive g) = filter active (world g)
   \<and> set (world (remove_inactive g)) = {c. c \<in> set (world g) \<and> active c}
   \<and> bricks (remove_inactive g) = bricks g
   \<and> paddle (remove_inactive g) = paddle g"
  by (simp add: remove_inactive_def erase_remove_if_def)

end
